theory Spec2Isabelle
  imports Main "HOL-Library.AList"
begin

section \<open>JavaScript values and the built-in operations the client uses\<close>

text \<open>
  The client handles JSON payloads of no fixed shape, so the model has a type of JavaScript
  values. Numbers are integers here (the code never computes with a payload number, it only
  stores and displays it). An object is the list of its entries in the order
  \<open>Object.entries\<close> yields them. Strings are lists of 8-bit characters.
\<close>

datatype jsval =
    JUndefined
  | JNull
  | JBool bool
  | JNum int
  | JStr string
  | JArr "jsval list"
  | JObj "(string \<times> jsval) list"

datatype error = SyntaxError | TypeError | FetchFailed

text \<open>Truthiness, as tested by \<open>!x\<close>, \<open>x && ...\<close> and \<open>if (x)\<close>.\<close>

fun truthy :: "jsval \<Rightarrow> bool" where
  "truthy JUndefined = False"
| "truthy JNull = False"
| "truthy (JBool b) = b"
| "truthy (JNum n) = (n \<noteq> 0)"
| "truthy (JStr s) = (s \<noteq> [])"
| "truthy (JArr xs) = True"
| "truthy (JObj es) = True"

fun typeof :: "jsval \<Rightarrow> string" where
  "typeof JUndefined = ''undefined''"
| "typeof JNull = ''object''"
| "typeof (JBool b) = ''boolean''"
| "typeof (JNum n) = ''number''"
| "typeof (JStr s) = ''string''"
| "typeof (JArr xs) = ''object''"
| "typeof (JObj es) = ''object''"

text \<open>Decimal digits of a number, as a template literal or an array index prints them.\<close>

definition digit_char :: "nat \<Rightarrow> char" where
  "digit_char d = ''0123456789'' ! d"

fun show_nat :: "nat \<Rightarrow> string" where
  "show_nat n = (if n < 10 then [digit_char n] else show_nat (n div 10) @ [digit_char (n mod 10)])"

declare show_nat.simps [simp del]

definition show_int :: "int \<Rightarrow> string" where
  "show_int i = (if i < 0 then CHR ''-'' # show_nat (nat (- i)) else show_nat (nat i))"

fun join_comma :: "string list \<Rightarrow> string" where
  "join_comma [] = []"
| "join_comma [s] = s"
| "join_comma (s # t # ss) = s @ '','' @ join_comma (t # ss)"

text \<open>
  \<open>ToString\<close>, the conversion a template literal \<open>`${x}`\<close> applies: \<open>null\<close> prints as
  \<open>null\<close>, an array joins its elements with commas (\<open>null\<close> and \<open>undefined\<close> elements
  printing as nothing), an object prints as \<open>[object Object]\<close>.
\<close>

fun to_string :: "jsval \<Rightarrow> string" where
  "to_string JUndefined = ''undefined''"
| "to_string JNull = ''null''"
| "to_string (JBool b) = (if b then ''true'' else ''false'')"
| "to_string (JNum n) = show_int n"
| "to_string (JStr s) = s"
| "to_string (JArr xs) =
     join_comma (map (\<lambda>x. if x = JNull \<or> x = JUndefined then [] else to_string x) xs)"
| "to_string (JObj es) = ''[object Object]''"

text \<open>
  Property access \<open>data.k\<close> for the property names the client reads (\<open>analysis\<close>,
  \<open>images\<close>, \<open>document_id\<close>, \<open>metadata\<close>): a \<open>TypeError\<close> on \<open>null\<close> and
  \<open>undefined\<close>, the entry's value on an object that has the key, \<open>undefined\<close> otherwise
  (no primitive or array has a property of one of these names).
\<close>

fun get_prop :: "jsval \<Rightarrow> string \<Rightarrow> error + jsval" where
  "get_prop JUndefined k = Inl TypeError"
| "get_prop JNull k = Inl TypeError"
| "get_prop (JObj es) k = Inr (case map_of es k of None \<Rightarrow> JUndefined | Some v \<Rightarrow> v)"
| "get_prop v k = Inr JUndefined"

text \<open>
  \<open>Object.entries\<close>: a \<open>TypeError\<close> on \<open>null\<close> and \<open>undefined\<close>; the entries of an
  object; the elements of an array and the characters of a string under their indices;
  nothing for a number or a boolean.
\<close>

definition indexed :: "'a list \<Rightarrow> (string \<times> 'a) list" where
  "indexed xs = zip (map show_nat [0..<length xs]) xs"

fun object_entries :: "jsval \<Rightarrow> error + (string \<times> jsval) list" where
  "object_entries JUndefined = Inl TypeError"
| "object_entries JNull = Inl TypeError"
| "object_entries (JBool b) = Inr []"
| "object_entries (JNum n) = Inr []"
| "object_entries (JStr s) = Inr (indexed (map (\<lambda>c. JStr [c]) s))"
| "object_entries (JArr xs) = Inr (indexed xs)"
| "object_entries (JObj es) = Inr es"

text \<open>\<open>key.replace(/_/g, " ")\<close> and \<open>toUpperCase()\<close> (on the ASCII letters).\<close>

definition replace_underscores :: "string \<Rightarrow> string" where
  "replace_underscores s = map (\<lambda>c. if c = CHR ''_'' then CHR '' '' else c) s"

definition upper_char :: "char \<Rightarrow> char" where
  "upper_char c =
     (case map_of (zip ''abcdefghijklmnopqrstuvwxyz'' ''ABCDEFGHIJKLMNOPQRSTUVWXYZ'') c of
        None \<Rightarrow> c | Some u \<Rightarrow> u)"

definition toUpperCase :: "string \<Rightarrow> string" where
  "toUpperCase s = map upper_char s"

text \<open>
  \<open>JSON.parse\<close> and \<open>JSON.stringify\<close> belong to the platform, not to the client. The
  renderer takes them as parameters: \<open>json_parse\<close> returns \<open>None\<close> where
  \<open>JSON.parse\<close> throws its \<open>SyntaxError\<close>.
\<close>

record builtins =
  json_parse :: "string \<Rightarrow> jsval option"
  json_stringify :: "jsval \<Rightarrow> string"

section \<open>The console and the transport\<close>

datatype entry =
    Log string "jsval list"
  | Err string error

datatype payload = NoBody | FormFile string

record request =
  url :: string
  meth :: string
  payload :: payload

text \<open>
  What a \<open>fetch\<close> followed by \<open>response.json()\<close> comes to: the fetch rejects, the body
  is not JSON, or a JSON value arrives.
\<close>

datatype response = NetError | BadJson | Json jsval

type_synonym transport = "request \<Rightarrow> response"

record world =
  calls :: "request list"
  console :: "entry list"

definition send :: "request \<Rightarrow> world \<Rightarrow> world" where
  "send r w = w\<lparr>calls := calls w @ [r]\<rparr>"

definition emit :: "entry \<Rightarrow> world \<Rightarrow> world" where
  "emit l w = w\<lparr>console := console w @ [l]\<rparr>"

text \<open>
  A handler runs on the state of the render that created it and leaves the next state, or it
  leaves a state updater that throws when React applies it, which takes the component down.
\<close>

datatype 'st outcome = Next 'st world | Crash error world

section \<open>The result renderer\<close>

text \<open>
  The element tree a renderer returns: an element with its children, a text, or an
  expression \<open>{v}\<close> holding a payload value. Class names and keys are left out.
\<close>

datatype node = El string "node list" | Txt string | Expr jsval

text \<open>
  \<open>typeof content === "string" ? JSON.parse(content) : content\<close>.
\<close>

definition parse_content :: "builtins \<Rightarrow> jsval \<Rightarrow> error + jsval" where
  "parse_content b content =
     (case content of
        JStr s \<Rightarrow> (case json_parse b s of None \<Rightarrow> Inl SyntaxError | Some v \<Rightarrow> Inr v)
      | _ \<Rightarrow> Inr content)"

subsection \<open>Single-request client (src/frontend/app/page.js)\<close>

definition sr_list_item :: "jsval \<Rightarrow> node" where
  "sr_list_item item = El ''li'' [Expr item]"

definition sr_entry_item :: "builtins \<Rightarrow> string \<times> jsval \<Rightarrow> node" where
  "sr_entry_item b e =
     (case e of (subKey, subValue) \<Rightarrow>
        El ''li''
          [El ''strong'' [Txt (replace_underscores subKey), Txt '':''],
           Txt '' '',
           (if typeof subValue = ''object'' then Txt (json_stringify b subValue)
            else Expr subValue)])"

definition sr_section_body :: "builtins \<Rightarrow> jsval \<Rightarrow> error + node" where
  "sr_section_body b v =
     (if typeof v = ''object'' then
        (case v of
           JArr xs \<Rightarrow> Inr (El ''ul'' (map sr_list_item xs))
         | _ \<Rightarrow>
            (case object_entries v of
               Inl e \<Rightarrow> Inl e
             | Inr es \<Rightarrow> Inr (El ''ul'' (map (sr_entry_item b) es))))
      else Inr (El ''p'' [Expr v]))"

definition sr_section :: "builtins \<Rightarrow> string \<Rightarrow> jsval \<Rightarrow> error + node" where
  "sr_section b k v =
     (case sr_section_body b v of
        Inl e \<Rightarrow> Inl e
      | Inr body \<Rightarrow>
          Inr (El ''div'' [El ''h3'' [Txt (toUpperCase (replace_underscores k))], body]))"

text \<open>
  The \<open>map\<close> over the entries stops at the first section that throws; the debug line of
  each section reached is on the console by then.
\<close>

fun sr_sections :: "builtins \<Rightarrow> (string \<times> jsval) list \<Rightarrow> entry list \<times> (error + node list)" where
  "sr_sections b [] = ([], Inr [])"
| "sr_sections b ((k, v) # es) =
     (case sr_section b k v of
        Inl e \<Rightarrow> ([Log ''Rendering section:'' [JStr k, v]], Inl e)
      | Inr n \<Rightarrow>
          (case sr_sections b es of
             (ls, Inl e) \<Rightarrow> (Log ''Rendering section:'' [JStr k, v] # ls, Inl e)
           | (ls, Inr ns) \<Rightarrow> (Log ''Rendering section:'' [JStr k, v] # ls, Inr (n # ns))))"

text \<open>The body of the \<open>try\<close> block: \<open>Inl\<close> is an exception thrown inside it.\<close>

definition sr_render_try :: "builtins \<Rightarrow> jsval \<Rightarrow> entry list \<times> (error + node)" where
  "sr_render_try b content =
     (case parse_content b content of
        Inl e \<Rightarrow> ([], Inl e)
      | Inr parsed \<Rightarrow>
          (case object_entries parsed of
             Inl e \<Rightarrow> ([Log ''Parsed content:'' [parsed]], Inl e)
           | Inr es \<Rightarrow>
               (case sr_sections b es of
                  (ls, Inl e) \<Rightarrow> (Log ''Parsed content:'' [parsed] # ls, Inl e)
                | (ls, Inr ns) \<Rightarrow> (Log ''Parsed content:'' [parsed] # ls, Inr (El ''div'' ns)))))"

definition sr_placeholder :: node where
  "sr_placeholder = El ''div'' [Txt ''Error rendering analysis'']"

text \<open>
  The renderer: the console lines it writes, and what it hands back. \<open>Inr\<close> is a returned
  tree, \<open>Inl\<close> would be an exception leaving the function.
\<close>

definition sr_renderAnalysisContent :: "builtins \<Rightarrow> jsval \<Rightarrow> entry list \<times> (error + node)" where
  "sr_renderAnalysisContent b content =
     (case sr_render_try b content of
        (ls, Inr tree) \<Rightarrow> (Log ''Rendering content:'' [content] # ls, Inr tree)
      | (ls, Inl e) \<Rightarrow>
          (Log ''Rendering content:'' [content] # ls @ [Err ''Error rendering content:'' e],
           Inr sr_placeholder))"

subsection \<open>Two-phase client (src/unnamed/part_000)\<close>

definition tp_list_item :: "jsval \<Rightarrow> node" where
  "tp_list_item item = El ''li'' [Expr item]"

definition tp_entry_item :: "builtins \<Rightarrow> string \<times> jsval \<Rightarrow> node" where
  "tp_entry_item b e =
     (case e of (subKey, subValue) \<Rightarrow>
        El ''li''
          [El ''span'' [Txt (replace_underscores subKey), Txt '':'', Txt '' ''],
           (if typeof subValue = ''object'' then Txt (json_stringify b subValue)
            else Expr subValue)])"

definition tp_section_body :: "builtins \<Rightarrow> jsval \<Rightarrow> error + node" where
  "tp_section_body b v =
     (if typeof v = ''object'' then
        (case v of
           JArr xs \<Rightarrow> Inr (El ''ul'' (map tp_list_item xs))
         | _ \<Rightarrow>
            (case object_entries v of
               Inl e \<Rightarrow> Inl e
             | Inr es \<Rightarrow> Inr (El ''ul'' (map (tp_entry_item b) es))))
      else Inr (El ''p'' [Expr v]))"

definition tp_section :: "builtins \<Rightarrow> string \<Rightarrow> jsval \<Rightarrow> error + node" where
  "tp_section b k v =
     (case tp_section_body b v of
        Inl e \<Rightarrow> Inl e
      | Inr body \<Rightarrow>
          Inr (El ''Card''
                [El ''CardHeader''
                   [El ''CardTitle'' [Txt (toUpperCase (replace_underscores k))]],
                 El ''CardContent'' [body]]))"

fun tp_sections :: "builtins \<Rightarrow> (string \<times> jsval) list \<Rightarrow> error + node list" where
  "tp_sections b [] = Inr []"
| "tp_sections b ((k, v) # es) =
     (case tp_section b k v of
        Inl e \<Rightarrow> Inl e
      | Inr n \<Rightarrow> (case tp_sections b es of Inl e \<Rightarrow> Inl e | Inr ns \<Rightarrow> Inr (n # ns)))"

definition tp_render_try :: "builtins \<Rightarrow> jsval \<Rightarrow> error + node" where
  "tp_render_try b content =
     (case parse_content b content of
        Inl e \<Rightarrow> Inl e
      | Inr parsed \<Rightarrow>
          (case object_entries parsed of
             Inl e \<Rightarrow> Inl e
           | Inr es \<Rightarrow>
               (case tp_sections b es of Inl e \<Rightarrow> Inl e | Inr ns \<Rightarrow> Inr (El ''div'' ns))))"

definition tp_placeholder :: node where
  "tp_placeholder = El ''Card'' [El ''CardContent'' [Txt ''Error rendering analysis'']]"

definition tp_renderAnalysisContent :: "builtins \<Rightarrow> jsval \<Rightarrow> entry list \<times> (error + node)" where
  "tp_renderAnalysisContent b content =
     (case tp_render_try b content of
        Inr tree \<Rightarrow> ([], Inr tree)
      | Inl e \<Rightarrow> ([Err ''Error rendering content:'' e], Inr tp_placeholder))"

section \<open>The single-request client: state and handlers (src/frontend/app/page.js)\<close>

text \<open>
  The component state. The selected file is the \<open>File\<close> object (here its name) or nothing
  (\<open>null\<close> at the start, \<open>undefined\<close> when the picker hands back no file). The
  \<open>analysis\<close> object always has exactly its three keys.
\<close>

record pass_results =
  first_pass :: jsval
  second_pass :: jsval
  third_pass :: jsval

record sr_state =
  sr_file :: "string option"
  sr_analysis :: pass_results
  sr_loading :: bool
  sr_currentPass :: nat

definition no_results :: pass_results where
  "no_results = \<lparr>first_pass = JNull, second_pass = JNull, third_pass = JNull\<rparr>"

definition sr_initial :: sr_state where
  "sr_initial = \<lparr>sr_file = None, sr_analysis = no_results, sr_loading = False, sr_currentPass = 1\<rparr>"

definition sr_handleFileUpload :: "string option \<Rightarrow> sr_state \<Rightarrow> sr_state" where
  "sr_handleFileUpload f s = s\<lparr>sr_file := f, sr_analysis := no_results, sr_currentPass := 1\<rparr>"

definition sr_url :: "nat \<Rightarrow> string" where
  "sr_url passNumber = ''http://localhost:8000/analyze/paper?pass_number='' @ show_nat passNumber"

definition sr_request :: "string \<Rightarrow> nat \<Rightarrow> request" where
  "sr_request f passNumber = \<lparr>url = sr_url passNumber, meth = ''POST'', payload = FormFile f\<rparr>"

text \<open>
  The updater handed to \<open>setAnalysis\<close>. It reads \<open>data.analysis\<close> only in the branch of
  the pass requested, and only when React applies it, outside the handler's \<open>try\<close>.
\<close>

definition sr_update :: "nat \<Rightarrow> jsval \<Rightarrow> pass_results \<Rightarrow> error + pass_results" where
  "sr_update passNumber data prev =
     (case (if passNumber = 1 then get_prop data ''analysis'' else Inr (first_pass prev)) of
        Inl e \<Rightarrow> Inl e
      | Inr a1 \<Rightarrow>
     (case (if passNumber = 2 then get_prop data ''analysis'' else Inr (second_pass prev)) of
        Inl e \<Rightarrow> Inl e
      | Inr a2 \<Rightarrow>
     (case (if passNumber = 3 then get_prop data ''analysis'' else Inr (third_pass prev)) of
        Inl e \<Rightarrow> Inl e
      | Inr a3 \<Rightarrow> Inr \<lparr>first_pass = a1, second_pass = a2, third_pass = a3\<rparr>)))"

definition results_val :: "pass_results \<Rightarrow> jsval" where
  "results_val a =
     JObj [(''first_pass'', first_pass a), (''second_pass'', second_pass a),
           (''third_pass'', third_pass a)]"

text \<open>
  \<open>analyzePaper\<close>, run to its end on the state \<open>s\<close> of the render that created it: no
  other event comes in between. The \<open>loading\<close> flag, raised for the time of the request,
  is down again in the state it leaves.
\<close>

definition sr_analyzePaper :: "transport \<Rightarrow> nat \<Rightarrow> sr_state \<Rightarrow> world \<Rightarrow> sr_state outcome" where
  "sr_analyzePaper t passNumber s w =
     (case sr_file s of
        None \<Rightarrow> Next s w
      | Some f \<Rightarrow>
          (let w1 = send (sr_request f passNumber)
                      (emit (Log ''Analyzing paper for pass:'' [JNum (int passNumber)]) w)
           in case t (sr_request f passNumber) of
                NetError \<Rightarrow>
                  Next (s\<lparr>sr_loading := False\<rparr>) (emit (Err ''Error analyzing paper:'' FetchFailed) w1)
              | BadJson \<Rightarrow>
                  Next (s\<lparr>sr_loading := False\<rparr>) (emit (Err ''Error analyzing paper:'' SyntaxError) w1)
              | Json data \<Rightarrow>
                  (case sr_update passNumber data (sr_analysis s) of
                     Inl e \<Rightarrow> Crash e (emit (Log ''Received analysis data:'' [data]) w1)
                   | Inr a \<Rightarrow>
                       Next (s\<lparr>sr_analysis := a, sr_currentPass := passNumber, sr_loading := False\<rparr>)
                         (emit (Log ''Updated analysis state:'' [results_val a])
                            (emit (Log ''Received analysis data:'' [data]) w1)))))"

text \<open>The three pass buttons, and the number each passes on.\<close>

datatype button = FirstPass | SecondPass | ThirdPass

fun pass_of :: "button \<Rightarrow> nat" where
  "pass_of FirstPass = 1"
| "pass_of SecondPass = 2"
| "pass_of ThirdPass = 3"

text \<open>The slot of the \<open>analysis\<close> object that \<open>analyzePaper(n)\<close> writes.\<close>

definition sr_result :: "sr_state \<Rightarrow> nat \<Rightarrow> jsval" where
  "sr_result s n =
     (if n = 1 then first_pass (sr_analysis s)
      else if n = 2 then second_pass (sr_analysis s)
      else if n = 3 then third_pass (sr_analysis s)
      else JUndefined)"

fun sr_onClick :: "transport \<Rightarrow> button \<Rightarrow> sr_state \<Rightarrow> world \<Rightarrow> sr_state outcome" where
  "sr_onClick t FirstPass s w =
     (if truthy (first_pass (sr_analysis s)) then Next (s\<lparr>sr_currentPass := 1\<rparr>) w
      else sr_analyzePaper t 1 s w)"
| "sr_onClick t SecondPass s w =
     (if truthy (second_pass (sr_analysis s)) then Next (s\<lparr>sr_currentPass := 2\<rparr>) w
      else sr_analyzePaper t 2 s w)"
| "sr_onClick t ThirdPass s w =
     (if truthy (third_pass (sr_analysis s)) then Next (s\<lparr>sr_currentPass := 3\<rparr>) w
      else sr_analyzePaper t 3 s w)"

fun sr_disabled :: "sr_state \<Rightarrow> button \<Rightarrow> bool" where
  "sr_disabled s FirstPass = (sr_file s = None \<or> sr_loading s)"
| "sr_disabled s SecondPass =
     (sr_file s = None \<or> \<not> truthy (first_pass (sr_analysis s)) \<or> sr_loading s)"
| "sr_disabled s ThirdPass =
     (sr_file s = None \<or> \<not> truthy (second_pass (sr_analysis s)) \<or> sr_loading s)"

section \<open>The two-phase client: state and handlers (src/unnamed/part_000)\<close>

text \<open>
  Here the \<open>analysis\<close> object gets keys computed from the pass number
  (\<open>pass_1\<close>, \<open>pass_2\<close>, \<open>pass_3\<close>) next to the three it starts with, so it is a list of
  entries; a key that is absent reads as \<open>undefined\<close>.
\<close>

record tp_state =
  tp_file :: "string option"
  tp_documentId :: jsval
  tp_analysis :: "(string \<times> jsval) list"
  tp_images :: jsval
  tp_loading :: bool
  tp_currentPass :: nat
  tp_metadata :: jsval

definition tp_no_results :: "(string \<times> jsval) list" where
  "tp_no_results = [(''first_pass'', JNull), (''second_pass'', JNull), (''third_pass'', JNull)]"

definition tp_initial :: tp_state where
  "tp_initial =
     \<lparr>tp_file = None, tp_documentId = JNull, tp_analysis = tp_no_results, tp_images = JArr [],
      tp_loading = False, tp_currentPass = 1, tp_metadata = JNull\<rparr>"

definition tp_handleFileUpload :: "string option \<Rightarrow> tp_state \<Rightarrow> tp_state" where
  "tp_handleFileUpload f s =
     s\<lparr>tp_file := f, tp_analysis := tp_no_results, tp_images := JArr [],
       tp_documentId := JNull, tp_currentPass := 1, tp_metadata := JNull\<rparr>"

definition lookup :: "(string \<times> jsval) list \<Rightarrow> string \<Rightarrow> jsval" where
  "lookup obj k = (case map_of obj k of None \<Rightarrow> JUndefined | Some v \<Rightarrow> v)"

definition pass_key :: "nat \<Rightarrow> string" where
  "pass_key passNumber = ''pass_'' @ show_nat passNumber"

definition tp_result :: "tp_state \<Rightarrow> nat \<Rightarrow> jsval" where
  "tp_result s n = lookup (tp_analysis s) (pass_key n)"

definition upload_request :: "string \<Rightarrow> request" where
  "upload_request f =
     \<lparr>url = ''http://localhost:8000/upload/paper'', meth = ''POST'', payload = FormFile f\<rparr>"

text \<open>
  \<open>uploadDocument\<close>: the value it returns (\<open>undefined\<close> on every path but the successful
  one), the state and the world it leaves.
\<close>

definition tp_uploadDocument :: "transport \<Rightarrow> tp_state \<Rightarrow> world \<Rightarrow> jsval \<times> tp_state \<times> world" where
  "tp_uploadDocument t s w =
     (case tp_file s of
        None \<Rightarrow> (JUndefined, s, w)
      | Some f \<Rightarrow>
          (case t (upload_request f) of
             NetError \<Rightarrow>
               (JUndefined, s\<lparr>tp_loading := False\<rparr>,
                emit (Err ''Error uploading document:'' FetchFailed) (send (upload_request f) w))
           | BadJson \<Rightarrow>
               (JUndefined, s\<lparr>tp_loading := False\<rparr>,
                emit (Err ''Error uploading document:'' SyntaxError) (send (upload_request f) w))
           | Json data \<Rightarrow>
               (case get_prop data ''document_id'' of
                  Inl e \<Rightarrow>
                    (JUndefined, s\<lparr>tp_loading := False\<rparr>,
                     emit (Err ''Error uploading document:'' e) (send (upload_request f) w))
                | Inr d \<Rightarrow>
                    (case get_prop data ''metadata'' of
                       Inl e \<Rightarrow>
                         (JUndefined, s\<lparr>tp_documentId := d, tp_loading := False\<rparr>,
                          emit (Err ''Error uploading document:'' e) (send (upload_request f) w))
                     | Inr m \<Rightarrow>
                         (d, s\<lparr>tp_documentId := d, tp_metadata := m, tp_loading := False\<rparr>,
                          send (upload_request f) w)))))"

definition tp_url :: "jsval \<Rightarrow> nat \<Rightarrow> string" where
  "tp_url documentId passNumber =
     ''http://localhost:8000/analyze/paper/'' @ to_string documentId
       @ ''?pass_number='' @ show_nat passNumber"

definition tp_request :: "jsval \<Rightarrow> nat \<Rightarrow> request" where
  "tp_request documentId passNumber =
     \<lparr>url = tp_url documentId passNumber, meth = ''POST'', payload = NoBody\<rparr>"

text \<open>The updater handed to \<open>setAnalysis\<close>: \<open>{...prev, [`pass_${passNumber}`]: data.analysis}\<close>.\<close>

definition tp_update :: "nat \<Rightarrow> jsval \<Rightarrow> (string \<times> jsval) list \<Rightarrow> error + (string \<times> jsval) list" where
  "tp_update passNumber data prev =
     (case get_prop data ''analysis'' of
        Inl e \<Rightarrow> Inl e
      | Inr a \<Rightarrow> Inr (AList.update (pass_key passNumber) a prev))"

text \<open>
  The part of \<open>analyzePaper\<close> after the upload block. \<open>s\<close> is the state of the render that
  created the handler: \<open>documentId\<close> in the request path is read from it. \<open>c\<close> is the state
  the upload block has left, which the updates go to. When \<open>data.images\<close> throws, the
  \<open>catch\<close> logs it, and the updater already handed to \<open>setAnalysis\<close> still runs afterwards.
\<close>

definition tp_analyze :: "transport \<Rightarrow> nat \<Rightarrow> tp_state \<Rightarrow> tp_state \<Rightarrow> world \<Rightarrow> tp_state outcome" where
  "tp_analyze t passNumber s c w =
     (let w1 = send (tp_request (tp_documentId s) passNumber) w
      in case t (tp_request (tp_documentId s) passNumber) of
           NetError \<Rightarrow>
             Next (c\<lparr>tp_loading := False\<rparr>) (emit (Err ''Error analyzing paper:'' FetchFailed) w1)
         | BadJson \<Rightarrow>
             Next (c\<lparr>tp_loading := False\<rparr>) (emit (Err ''Error analyzing paper:'' SyntaxError) w1)
         | Json data \<Rightarrow>
             (case get_prop data ''images'' of
                Inl e \<Rightarrow>
                  (case tp_update passNumber data (tp_analysis c) of
                     Inl e' \<Rightarrow> Crash e' (emit (Err ''Error analyzing paper:'' e) w1)
                   | Inr a \<Rightarrow>
                       Next (c\<lparr>tp_analysis := a, tp_loading := False\<rparr>)
                         (emit (Err ''Error analyzing paper:'' e) w1))
              | Inr imgs \<Rightarrow>
                  (case tp_update passNumber data (tp_analysis c) of
                     Inl e' \<Rightarrow> Crash e' w1
                   | Inr a \<Rightarrow>
                       Next (c\<lparr>tp_analysis := a,
                               tp_images := (if truthy imgs then imgs else tp_images c),
                               tp_currentPass := passNumber, tp_loading := False\<rparr>) w1)))"

definition tp_analyzePaper :: "transport \<Rightarrow> nat \<Rightarrow> tp_state \<Rightarrow> world \<Rightarrow> tp_state outcome" where
  "tp_analyzePaper t passNumber s w =
     (if \<not> truthy (tp_documentId s) \<and> tp_file s \<noteq> None then
        (case tp_uploadDocument t s w of
           (newDocId, c, w1) \<Rightarrow>
             if \<not> truthy newDocId then Next c w1 else tp_analyze t passNumber s c w1)
      else tp_analyze t passNumber s s w)"

fun tp_onClick :: "transport \<Rightarrow> button \<Rightarrow> tp_state \<Rightarrow> world \<Rightarrow> tp_state outcome" where
  "tp_onClick t FirstPass s w = tp_analyzePaper t 1 s w"
| "tp_onClick t SecondPass s w = tp_analyzePaper t 2 s w"
| "tp_onClick t ThirdPass s w = tp_analyzePaper t 3 s w"

fun tp_disabled :: "tp_state \<Rightarrow> button \<Rightarrow> bool" where
  "tp_disabled s FirstPass = (tp_file s = None \<or> tp_loading s)"
| "tp_disabled s SecondPass =
     (tp_file s = None \<or> \<not> truthy (lookup (tp_analysis s) ''pass_1'') \<or> tp_loading s)"
| "tp_disabled s ThirdPass =
     (tp_file s = None \<or> \<not> truthy (lookup (tp_analysis s) ''pass_2'') \<or> tp_loading s)"

section \<open>Reading outcomes, and the inputs used as examples\<close>

fun next_state :: "'st outcome \<Rightarrow> 'st option" where
  "next_state (Next s w) = Some s"
| "next_state (Crash e w) = None"

fun world_of :: "'st outcome \<Rightarrow> world" where
  "world_of (Next s w) = w"
| "world_of (Crash e w) = w"

text \<open>The error a failed request raises in the handler: none when a JSON value arrives.\<close>

fun failure :: "response \<Rightarrow> error option" where
  "failure NetError = Some FetchFailed"
| "failure BadJson = Some SyntaxError"
| "failure (Json d) = None"

definition ex_analysis :: jsval where
  "ex_analysis = JObj [(''summary'', JStr ''A short paper.'')]"

definition ex_image :: jsval where
  "ex_image = JObj [(''image'', JStr ''aGVsbG8=''), (''page_number'', JNum 2)]"

definition ex_upload_reply :: jsval where
  "ex_upload_reply =
     JObj [(''document_id'', JStr ''abc''), (''metadata'', JObj [(''pages'', JNum 3)])]"

definition ex_reply :: jsval where
  "ex_reply = JObj [(''analysis'', ex_analysis)]"

text \<open>
  Three backends: one that answers an upload with a document identifier and anything else
  with an analysis and no images, one that answers everything with an error document, and
  one that cannot be reached.
\<close>

definition ex_backend :: transport where
  "ex_backend r =
     (if url r = ''http://localhost:8000/upload/paper'' then Json ex_upload_reply
      else Json ex_reply)"

definition ex_refusing :: transport where
  "ex_refusing r = Json (JObj [(''detail'', JStr ''Not Found'')])"

definition ex_offline :: transport where
  "ex_offline r = NetError"

definition ex_world :: world where
  "ex_world = \<lparr>calls = [], console = []\<rparr>"

definition sr_file_selected :: sr_state where
  "sr_file_selected = sr_handleFileUpload (Some ''paper.pdf'') sr_initial"

definition tp_file_selected :: tp_state where
  "tp_file_selected = tp_handleFileUpload (Some ''paper.pdf'') tp_initial"

text \<open>The two-phase client after a successful upload and a successful first pass.\<close>

definition tp_viewing_pass1 :: tp_state where
  "tp_viewing_pass1 =
     \<lparr>tp_file = Some ''paper.pdf'', tp_documentId = JStr ''abc'',
      tp_analysis = tp_no_results @ [(''pass_1'', ex_analysis)], tp_images = JArr [ex_image],
      tp_loading = False, tp_currentPass = 1, tp_metadata = JObj [(''pages'', JNum 3)]\<rparr>"

definition ex_content :: jsval where
  "ex_content =
     JObj [(''a'', JNum 1), (''b'', JArr [JStr ''x'', JStr ''y'']), (''c'', JObj [(''d'', JNum 2)])]"

text \<open>A stand-in for the platform that parses the text \<open>{}\<close> and nothing else.\<close>

definition ex_builtins :: builtins where
  "ex_builtins =
     \<lparr>json_parse = (\<lambda>s. if s = ''{}'' then Some (JObj []) else None),
      json_stringify = to_string\<rparr>"

definition ex_figures_reply :: jsval where
  "ex_figures_reply = JObj [(''analysis'', ex_analysis), (''images'', JArr [])]"

definition ex_illustrating :: transport where
  "ex_illustrating r = Json ex_figures_reply"

text \<open>The single-request client with the first pass fetched.\<close>

definition sr_viewing_pass1 :: sr_state where
  "sr_viewing_pass1 =
     \<lparr>sr_file = Some ''paper.pdf'',
      sr_analysis = \<lparr>first_pass = ex_analysis, second_pass = JNull, third_pass = JNull\<rparr>,
      sr_loading = False, sr_currentPass = 1\<rparr>"

section \<open>Facts about the building blocks\<close>

lemma show_nat_simps:
  "show_nat 1 = ''1''" "show_nat (Suc 0) = ''1''" "show_nat 2 = ''2''" "show_nat 3 = ''3''"
  by (simp_all add: show_nat.simps digit_char_def)

lemma pass_key_simps:
  "pass_key 1 = ''pass_1''" "pass_key (Suc 0) = ''pass_1''"
  "pass_key 2 = ''pass_2''" "pass_key 3 = ''pass_3''"
  by (simp_all add: pass_key_def show_nat_simps)

lemma pass_of_range: "range pass_of = {1, 2, 3}"
proof
  show "range pass_of \<subseteq> {1, 2, 3}"
  proof
    fix n assume "n \<in> range pass_of"
    then obtain b where "n = pass_of b" by auto
    then show "n \<in> {1, 2, 3}" by (cases b) simp_all
  qed
  have "pass_of FirstPass = 1" "pass_of SecondPass = 2" "pass_of ThirdPass = 3" by simp_all
  then show "{1, 2, 3} \<subseteq> range pass_of" by (metis insert_subset empty_subsetI rangeI)
qed

lemma pass_key_not_initial: "map_of tp_no_results (pass_key n) = None"
  by (simp add: tp_no_results_def pass_key_def)

lemma upper_simps:
  "toUpperCase ''a'' = ''A''" "toUpperCase ''b'' = ''B''" "toUpperCase ''c'' = ''C''"
  by (simp_all add: toUpperCase_def upper_char_def)

text \<open>Distinct pass numbers give distinct keys: the decimal digits determine the number.\<close>

lemma digit_char_inj: "a < 10 \<Longrightarrow> b < 10 \<Longrightarrow> digit_char a = digit_char b \<Longrightarrow> a = b"
proof -
  assume "a < 10" "b < 10" "digit_char a = digit_char b"
  moreover have "distinct ''0123456789''" by simp
  ultimately show ?thesis
    by (simp add: digit_char_def nth_eq_iff_index_eq)
qed

lemma show_nat_nonempty: "show_nat n \<noteq> []"
  by (subst show_nat.simps) simp

lemma show_nat_inj: "show_nat n = show_nat m \<Longrightarrow> n = m"
proof (induction n arbitrary: m rule: show_nat.induct)
  case (1 n)
  show ?case
  proof (cases "n < 10")
    case True
    then have n1: "show_nat n = [digit_char n]" by (subst show_nat.simps) simp
    show ?thesis
    proof (cases "m < 10")
      case True
      then have "show_nat m = [digit_char m]" by (subst show_nat.simps) simp
      with n1 "1.prems" \<open>n < 10\<close> True show ?thesis by (simp add: digit_char_inj)
    next
      case False
      then have "show_nat m = show_nat (m div 10) @ [digit_char (m mod 10)]"
        by (subst show_nat.simps) simp
      with n1 "1.prems" show ?thesis using show_nat_nonempty [of "m div 10"] by auto
    qed
  next
    case False
    then have n2: "show_nat n = show_nat (n div 10) @ [digit_char (n mod 10)]"
      by (subst show_nat.simps) simp
    show ?thesis
    proof (cases "m < 10")
      case True
      then have "show_nat m = [digit_char m]" by (subst show_nat.simps) simp
      with n2 "1.prems" show ?thesis using show_nat_nonempty [of "n div 10"] by auto
    next
      case m: False
      then have "show_nat m = show_nat (m div 10) @ [digit_char (m mod 10)]"
        by (subst show_nat.simps) simp
      with n2 "1.prems" have eq: "show_nat (n div 10) = show_nat (m div 10)"
        and d: "digit_char (n mod 10) = digit_char (m mod 10)" by simp_all
      from "1.IH" [OF False eq] have "n div 10 = m div 10" .
      moreover from d have "n mod 10 = m mod 10" by (simp add: digit_char_inj)
      ultimately show ?thesis by (metis div_mult_mod_eq)
    qed
  qed
qed

lemma pass_key_inj: "pass_key n = pass_key m \<Longrightarrow> n = m"
  by (simp add: pass_key_def show_nat_inj)

lemma lookup_update_other: "k \<noteq> k' \<Longrightarrow> lookup (AList.update k' v obj) k = lookup obj k"
  by (simp add: lookup_def update_conv')

lemma get_prop_total: "get_prop data k = Inr v \<Longrightarrow> \<exists>a. get_prop data k' = Inr a"
  by (cases data) auto

subsection \<open>Failed requests\<close>

lemma sr_fail:
  "sr_file s = Some f \<Longrightarrow> failure (t (sr_request f n)) = Some e \<Longrightarrow>
   sr_analyzePaper t n s w =
     Next (s\<lparr>sr_loading := False\<rparr>)
       (emit (Err ''Error analyzing paper:'' e)
          (send (sr_request f n) (emit (Log ''Analyzing paper for pass:'' [JNum (int n)]) w)))"
  by (cases "t (sr_request f n)") (auto simp add: sr_analyzePaper_def Let_def)

lemma tp_analyze_fail:
  "failure (t (tp_request (tp_documentId s) n)) = Some e \<Longrightarrow>
   tp_analyze t n s c w =
     Next (c\<lparr>tp_loading := False\<rparr>)
       (emit (Err ''Error analyzing paper:'' e) (send (tp_request (tp_documentId s) n) w))"
  by (cases "t (tp_request (tp_documentId s) n)") (auto simp add: tp_analyze_def Let_def)

subsection \<open>What the upload leaves alone, and what every request adds\<close>

lemma tp_upload_frame:
  "tp_uploadDocument t s w = (d, c, w1) \<Longrightarrow>
   tp_analysis c = tp_analysis s \<and> tp_images c = tp_images s
   \<and> tp_currentPass c = tp_currentPass s \<and> tp_file c = tp_file s"
  by (auto simp add: tp_uploadDocument_def split: option.splits response.splits sum.splits)

lemma tp_analyze_sends: "length (calls w) < length (calls (world_of (tp_analyze t n s c w)))"
  by (auto simp add: tp_analyze_def Let_def send_def emit_def split: response.splits sum.splits)

lemma tp_upload_sends:
  "tp_file s = Some f \<Longrightarrow> tp_uploadDocument t s w = (d, c, w1) \<Longrightarrow>
   length (calls w) < length (calls w1)"
  by (auto simp add: tp_uploadDocument_def send_def emit_def
      split: option.splits response.splits sum.splits)

subsection \<open>Results of the other passes\<close>

lemma sr_analyze_other:
  "sr_analyzePaper t m s w = Next s' w' \<Longrightarrow> n \<noteq> m \<Longrightarrow> sr_result s' n = sr_result s n"
  unfolding sr_result_def
  by (auto simp add: sr_analyzePaper_def Let_def sr_update_def
      split: option.splits response.splits sum.splits if_splits)

lemma tp_analyze_other:
  "tp_analyze t m s c w = Next s' w' \<Longrightarrow> n \<noteq> m \<Longrightarrow> tp_result s' n = tp_result c n"
proof -
  assume a: "tp_analyze t m s c w = Next s' w'" and "n \<noteq> m"
  then have "pass_key n \<noteq> pass_key m" using pass_key_inj by blast
  then have k: "lookup (AList.update (pass_key m) v obj) (pass_key n) = lookup obj (pass_key n)"
    for v obj by (rule lookup_update_other)
  from a show ?thesis
    by (auto simp add: tp_analyze_def Let_def tp_update_def tp_result_def k
        split: response.splits sum.splits)
qed

lemma tp_analyzePaper_other:
  "tp_analyzePaper t m s w = Next s' w' \<Longrightarrow> n \<noteq> m \<Longrightarrow> tp_result s' n = tp_result s n"
proof -
  assume a: "tp_analyzePaper t m s w = Next s' w'" and nm: "n \<noteq> m"
  obtain d c w1 where up: "tp_uploadDocument t s w = (d, c, w1)"
    by (cases "tp_uploadDocument t s w") auto
  have c: "tp_result c n = tp_result s n"
    using tp_upload_frame [OF up] by (simp add: tp_result_def)
  show ?thesis
    using a up c tp_analyze_other [OF _ nm]
    by (auto simp add: tp_analyzePaper_def split: if_splits)
qed

lemma sr_click_stored:
  "truthy (sr_result s (pass_of b)) \<Longrightarrow>
   sr_onClick t b s w = Next (s\<lparr>sr_currentPass := pass_of b\<rparr>) w"
  by (cases b) (simp_all add: sr_result_def)

subsection \<open>Sections of the renderer\<close>

lemma section_body_throws:
  "(sr_section_body b v = Inl e) = (v = JNull \<and> e = TypeError)"
  "(tp_section_body b v = Inl e) = (v = JNull \<and> e = TypeError)"
  by (cases v; auto simp add: sr_section_body_def tp_section_body_def)+

lemma sr_sections_map:
  "JNull \<notin> snd ` set es \<Longrightarrow>
   snd (sr_sections b es) = Inr (map (\<lambda>(k, v). projr (sr_section b k v)) es)"
proof (induction es)
  case Nil
  then show ?case by simp
next
  case (Cons a es)
  obtain k v where a: "a = (k, v)" by (cases a)
  with Cons.prems have "v \<noteq> JNull" by auto
  then obtain n where n: "sr_section b k v = Inr n"
    by (cases "sr_section_body b v") (auto simp add: sr_section_def section_body_throws)
  from Cons show ?case using a n
    by (cases "sr_sections b es") (auto split: sum.splits)
qed

lemma tp_sections_map:
  "JNull \<notin> snd ` set es \<Longrightarrow>
   tp_sections b es = Inr (map (\<lambda>(k, v). projr (tp_section b k v)) es)"
proof (induction es)
  case Nil
  then show ?case by simp
next
  case (Cons a es)
  obtain k v where a: "a = (k, v)" by (cases a)
  with Cons.prems have "v \<noteq> JNull" by auto
  then obtain n where n: "tp_section b k v = Inr n"
    by (cases "tp_section_body b v") (auto simp add: tp_section_def section_body_throws)
  from Cons show ?case using a n by auto
qed

section \<open>The claims\<close>

text \<open>
  Claim C1. For every pass whose result is stored, activating its control again issues no
  network request; it only makes that pass the one displayed.

  The two-phase client does not do this: each of its three buttons calls \<open>analyzePaper\<close>
  whatever is stored. With a document uploaded and the first pass stored, a click on
  "First Pass" sends the analyze request again.
\<close>

theorem tp_onClick_refetches_stored_pass:
  "truthy (tp_result tp_viewing_pass1 1)
   \<and> tp_onClick ex_backend FirstPass tp_viewing_pass1 ex_world =
       Next tp_viewing_pass1
         \<lparr>calls = [\<lparr>url = ''http://localhost:8000/analyze/paper/abc?pass_number=1'',
                    meth = ''POST'', payload = NoBody\<rparr>],
          console = []\<rparr>"
  by (simp add: tp_viewing_pass1_def tp_result_def lookup_def tp_no_results_def pass_key_simps
      tp_analyzePaper_def tp_analyze_def tp_request_def tp_url_def show_nat_simps ex_backend_def
      ex_reply_def ex_analysis_def tp_update_def send_def ex_world_def Let_def)

text \<open>
  Claim C2. In the two-phase client, a pass triggered with a file selected and no document
  identifier stored uploads first, and the analyze request that follows goes to
  \<open>/analyze/paper/{document_id}\<close> with the identifier the upload returned.

  The upload does come first, but the path of the analyze request is built from the
  \<open>documentId\<close> of the render that created the handler, which is still \<open>null\<close>: the
  identifier \<open>abc\<close> the upload returned is not in it.
\<close>

theorem tp_analyze_path_has_stale_documentId:
  "calls (world_of (tp_onClick ex_backend FirstPass tp_file_selected ex_world)) =
     [\<lparr>url = ''http://localhost:8000/upload/paper'', meth = ''POST'',
       payload = FormFile ''paper.pdf''\<rparr>,
      \<lparr>url = ''http://localhost:8000/analyze/paper/null?pass_number=1'', meth = ''POST'',
       payload = NoBody\<rparr>]"
  by (simp add: tp_file_selected_def tp_handleFileUpload_def tp_initial_def
      tp_analyzePaper_def tp_uploadDocument_def upload_request_def tp_analyze_def tp_request_def
      tp_url_def show_nat_simps ex_backend_def ex_upload_reply_def
      ex_reply_def ex_analysis_def tp_update_def send_def ex_world_def Let_def)

text \<open>
  Claim C3. Whatever the state before, selecting a file clears the stored results of all
  three passes, the image list, the metadata and the document identifier, and makes pass 1
  the one displayed. (The single-request client has only the results and the displayed
  pass to reset.)
\<close>

theorem handleFileUpload_resets:
  "sr_file (sr_handleFileUpload f s) = f
   \<and> sr_result (sr_handleFileUpload f s) 1 = JNull
   \<and> sr_result (sr_handleFileUpload f s) 2 = JNull
   \<and> sr_result (sr_handleFileUpload f s) 3 = JNull
   \<and> sr_currentPass (sr_handleFileUpload f s) = 1
   \<and> tp_file (tp_handleFileUpload g u) = g
   \<and> tp_result (tp_handleFileUpload g u) 1 = JUndefined
   \<and> tp_result (tp_handleFileUpload g u) 2 = JUndefined
   \<and> tp_result (tp_handleFileUpload g u) 3 = JUndefined
   \<and> tp_images (tp_handleFileUpload g u) = JArr []
   \<and> tp_metadata (tp_handleFileUpload g u) = JNull
   \<and> tp_documentId (tp_handleFileUpload g u) = JNull
   \<and> tp_currentPass (tp_handleFileUpload g u) = 1"
  by (simp add: sr_handleFileUpload_def sr_result_def no_results_def tp_handleFileUpload_def
      tp_result_def lookup_def pass_key_not_initial)

text \<open>
  Claim C4. For every input, a string or a value already parsed, the renderer returns a
  rendered tree or the fixed "Error rendering analysis" placeholder and throws nothing; for
  a string that does not parse as JSON it returns the placeholder.

  Both renderers: what comes back is always a tree (\<open>Inr\<close>), either the placeholder or the
  tree the \<open>try\<close> block built.
\<close>

theorem renderAnalysisContent_never_throws:
  "(\<exists>ls tree. sr_renderAnalysisContent b c = (ls, Inr tree)
        \<and> (tree = sr_placeholder \<or> snd (sr_render_try b c) = Inr tree))
   \<and> (\<exists>ls tree. tp_renderAnalysisContent b c = (ls, Inr tree)
        \<and> (tree = tp_placeholder \<or> tp_render_try b c = Inr tree))
   \<and> (json_parse b str = None \<longrightarrow>
        snd (sr_renderAnalysisContent b (JStr str)) = Inr sr_placeholder
        \<and> snd (tp_renderAnalysisContent b (JStr str)) = Inr tp_placeholder)"
proof (intro conjI impI)
  show "\<exists>ls tree. sr_renderAnalysisContent b c = (ls, Inr tree)
        \<and> (tree = sr_placeholder \<or> snd (sr_render_try b c) = Inr tree)"
    by (cases "sr_render_try b c") (auto simp add: sr_renderAnalysisContent_def split: sum.splits)
  show "\<exists>ls tree. tp_renderAnalysisContent b c = (ls, Inr tree)
        \<and> (tree = tp_placeholder \<or> tp_render_try b c = Inr tree)"
    by (auto simp add: tp_renderAnalysisContent_def split: sum.splits)
next
  assume "json_parse b str = None"
  then show "snd (sr_renderAnalysisContent b (JStr str)) = Inr sr_placeholder"
    by (simp add: sr_renderAnalysisContent_def sr_render_try_def parse_content_def)
next
  assume "json_parse b str = None"
  then show "snd (tp_renderAnalysisContent b (JStr str)) = Inr tp_placeholder"
    by (simp add: tp_renderAnalysisContent_def tp_render_try_def parse_content_def)
qed

theorem renderAnalysisContent_never_throws_witness:
  "json_parse ex_builtins ''{oops'' = None
   \<and> snd (sr_renderAnalysisContent ex_builtins (JStr ''{oops'')) = Inr sr_placeholder
   \<and> snd (tp_renderAnalysisContent ex_builtins (JStr ''{oops'')) = Inr tp_placeholder"
  using renderAnalysisContent_never_throws [where b = ex_builtins and str = "''{oops''"]
  by (simp add: ex_builtins_def)

text \<open>
  Claim C5. A stored result of pass N is unchanged by a later successful analysis request
  for another pass, and the only operation that removes a stored pass result is selecting a
  new document.

  The first half holds in both clients. The second does not in the two-phase client: a
  click on the button of a pass that is stored runs the request again and stores whatever
  \<open>data.analysis\<close> is, here \<open>undefined\<close>, since the reply is an error document.
\<close>

theorem tp_onClick_drops_stored_result:
  "truthy (tp_result tp_viewing_pass1 1)
   \<and> map_option (\<lambda>s. tp_result s 1)
        (next_state (tp_onClick ex_refusing FirstPass tp_viewing_pass1 ex_world)) =
       Some JUndefined"
  by (simp add: tp_viewing_pass1_def tp_result_def lookup_def tp_no_results_def pass_key_simps
      tp_analyzePaper_def tp_analyze_def tp_request_def tp_url_def show_nat_simps ex_refusing_def
      ex_analysis_def tp_update_def send_def ex_world_def Let_def)

text \<open>
  Claim C6. In every state, the trigger of pass N is enabled exactly when a file is present,
  no request is pending, and N is 1 or the result of pass N - 1 is stored. The three
  buttons are the passes 1, 2 and 3 (\<open>pass_of\<close>); a result is stored when its slot is
  truthy, the test the code applies throughout.
\<close>

theorem pass_button_enabled_iff:
  "(\<not> sr_disabled s b) =
     (sr_file s \<noteq> None \<and> \<not> sr_loading s
      \<and> (pass_of b = 1 \<or> truthy (sr_result s (pass_of b - 1))))
   \<and> (\<not> tp_disabled u b) =
     (tp_file u \<noteq> None \<and> \<not> tp_loading u
      \<and> (pass_of b = 1 \<or> truthy (tp_result u (pass_of b - 1))))"
  by (cases b) (auto simp add: sr_result_def tp_result_def pass_key_simps)

theorem pass_button_enabled_iff_witness:
  "sr_disabled sr_file_selected SecondPass \<and> \<not> sr_disabled sr_file_selected FirstPass
   \<and> \<not> tp_disabled tp_viewing_pass1 SecondPass \<and> tp_disabled tp_viewing_pass1 ThirdPass"
  using pass_button_enabled_iff [of sr_file_selected SecondPass tp_viewing_pass1]
    pass_button_enabled_iff [of sr_file_selected FirstPass tp_viewing_pass1]
    pass_button_enabled_iff [of sr_file_selected ThirdPass tp_viewing_pass1]
  by (simp add: sr_file_selected_def sr_handleFileUpload_def sr_initial_def sr_result_def
      no_results_def tp_viewing_pass1_def tp_result_def lookup_def tp_no_results_def pass_key_simps
      ex_analysis_def)

text \<open>
  Claim C7. When an analysis request fails, by a network error or by a response that is not
  JSON, the stored results and the displayed pass are as before, the loading flag is down,
  the failure is on the console, and the user is shown no error.

  In the single-request client the state afterwards is the state before with the loading
  flag down, and there is nothing else a view could show. In the two-phase client the
  analyze request is reached when a document identifier is stored, no file is selected, or
  the upload has returned an identifier.
\<close>

theorem analyze_failure_is_silent:
  "(sr_file s = Some f \<and> failure (t (sr_request f n)) = Some e \<longrightarrow>
      (\<exists>w'. sr_analyzePaper t n s w = Next (s\<lparr>sr_loading := False\<rparr>) w'
            \<and> calls w' = calls w @ [sr_request f n]
            \<and> last (console w') = Err ''Error analyzing paper:'' e))
   \<and> (failure (t (tp_request (tp_documentId u) n)) = Some e
        \<and> (truthy (tp_documentId u) \<or> tp_file u = None
            \<or> truthy (fst (tp_uploadDocument t u w))) \<longrightarrow>
      (\<exists>u' w'. tp_analyzePaper t n u w = Next u' w'
            \<and> tp_analysis u' = tp_analysis u \<and> tp_currentPass u' = tp_currentPass u
            \<and> tp_images u' = tp_images u \<and> tp_file u' = tp_file u \<and> \<not> tp_loading u'
            \<and> last (console w') = Err ''Error analyzing paper:'' e))"
proof (intro conjI impI)
  assume "sr_file s = Some f \<and> failure (t (sr_request f n)) = Some e"
  then show "\<exists>w'. sr_analyzePaper t n s w = Next (s\<lparr>sr_loading := False\<rparr>) w'
            \<and> calls w' = calls w @ [sr_request f n]
            \<and> last (console w') = Err ''Error analyzing paper:'' e"
    by (simp add: sr_fail emit_def send_def)
next
  assume a: "failure (t (tp_request (tp_documentId u) n)) = Some e
        \<and> (truthy (tp_documentId u) \<or> tp_file u = None
            \<or> truthy (fst (tp_uploadDocument t u w)))"
  obtain d c w1 where up: "tp_uploadDocument t u w = (d, c, w1)"
    by (cases "tp_uploadDocument t u w") auto
  note fr = tp_upload_frame [OF up]
  show "\<exists>u' w'. tp_analyzePaper t n u w = Next u' w'
            \<and> tp_analysis u' = tp_analysis u \<and> tp_currentPass u' = tp_currentPass u
            \<and> tp_images u' = tp_images u \<and> tp_file u' = tp_file u \<and> \<not> tp_loading u'
            \<and> last (console w') = Err ''Error analyzing paper:'' e"
    using a up fr by (auto simp add: tp_analyzePaper_def tp_analyze_fail emit_def send_def)
qed

theorem analyze_failure_is_silent_witness:
  "sr_file sr_file_selected = Some ''paper.pdf''
   \<and> failure (ex_offline (sr_request ''paper.pdf'' 1)) = Some FetchFailed
   \<and> (\<exists>w'. sr_analyzePaper ex_offline 1 sr_file_selected ex_world =
              Next (sr_file_selected\<lparr>sr_loading := False\<rparr>) w'
            \<and> calls w' = calls ex_world @ [sr_request ''paper.pdf'' 1]
            \<and> last (console w') = Err ''Error analyzing paper:'' FetchFailed)
   \<and> failure (ex_offline (tp_request (tp_documentId tp_viewing_pass1) 1)) = Some FetchFailed
   \<and> truthy (tp_documentId tp_viewing_pass1)
   \<and> (\<exists>u' w'. tp_analyzePaper ex_offline 1 tp_viewing_pass1 ex_world = Next u' w'
            \<and> tp_analysis u' = tp_analysis tp_viewing_pass1
            \<and> tp_currentPass u' = tp_currentPass tp_viewing_pass1
            \<and> tp_images u' = tp_images tp_viewing_pass1
            \<and> tp_file u' = tp_file tp_viewing_pass1 \<and> \<not> tp_loading u'
            \<and> last (console w') = Err ''Error analyzing paper:'' FetchFailed)"
proof -
  have f: "sr_file sr_file_selected = Some ''paper.pdf''"
    by (simp add: sr_file_selected_def sr_handleFileUpload_def)
  have o: "failure (ex_offline r) = Some FetchFailed" for r
    by (simp add: ex_offline_def)
  have d: "truthy (tp_documentId tp_viewing_pass1)"
    by (simp add: tp_viewing_pass1_def)
  show ?thesis
    using analyze_failure_is_silent [where s = sr_file_selected and f = "''paper.pdf''"
        and t = ex_offline and n = 1 and e = FetchFailed and u = tp_viewing_pass1
        and w = ex_world] f o d
    by simp
qed

text \<open>
  Claim C8. For a well-formed object the renderer gives one labelled section per top-level
  key, in entry order: a list for an array, "key: value" lines for a nested object, a plain
  text block for a scalar.

  \<open>null\<close> is a scalar for which this fails: \<open>typeof null\<close> is \<open>"object"\<close>, so the value
  goes to \<open>Object.entries\<close>, which throws, and the whole analysis becomes the placeholder.
\<close>

theorem render_null_value_gives_placeholder:
  "snd (sr_renderAnalysisContent b (JObj [(''a'', JNull)])) = Inr sr_placeholder
   \<and> snd (tp_renderAnalysisContent b (JObj [(''a'', JNull)])) = Inr tp_placeholder"
  by (simp add: sr_renderAnalysisContent_def sr_render_try_def parse_content_def sr_section_def
      sr_section_body_def tp_renderAnalysisContent_def tp_render_try_def tp_section_def
      tp_section_body_def)

text \<open>
  Claim C9. In the two-phase client, after every successful analysis response the stored
  image list is the images list of that response, whatever was stored before.

  As stated this fails for a response without an \<open>images\<close> field, which the interface
  allows: the list stored before stays.
\<close>

theorem tp_images_kept_without_field:
  "ex_backend (tp_request (tp_documentId tp_viewing_pass1) 2) = Json ex_reply
   \<and> get_prop ex_reply ''images'' = Inr JUndefined
   \<and> map_option tp_images (next_state (tp_analyzePaper ex_backend 2 tp_viewing_pass1 ex_world))
       = Some (JArr [ex_image])"
  by (simp add: tp_viewing_pass1_def tp_no_results_def pass_key_simps
      tp_analyzePaper_def tp_analyze_def tp_request_def tp_url_def show_nat_simps ex_backend_def
      ex_reply_def ex_analysis_def tp_update_def send_def ex_world_def Let_def)

text \<open>
  Claim C9, amended. In the two-phase client, after a successful analysis response whose
  \<open>images\<close> field is truthy the stored image list is that field, whatever was stored
  before; after one whose \<open>images\<close> field is absent or falsy the stored list is unchanged.
\<close>

theorem tp_images_replaced_when_present:
  "t (tp_request (tp_documentId s) n) = Json data \<Longrightarrow>
   get_prop data ''images'' = Inr imgs \<Longrightarrow>
   truthy (tp_documentId s) \<or> tp_file s = None \<or> truthy (fst (tp_uploadDocument t s w)) \<Longrightarrow>
   \<exists>s' w'. tp_analyzePaper t n s w = Next s' w'
     \<and> tp_images s' = (if truthy imgs then imgs else tp_images s)"
proof -
  assume r: "t (tp_request (tp_documentId s) n) = Json data"
    and i: "get_prop data ''images'' = Inr imgs"
    and reach: "truthy (tp_documentId s) \<or> tp_file s = None
                \<or> truthy (fst (tp_uploadDocument t s w))"
  obtain a where a: "get_prop data ''analysis'' = Inr a"
    using get_prop_total [OF i] by blast
  have an: "tp_analyze t n s c w1 =
      Next (c\<lparr>tp_analysis := AList.update (pass_key n) a (tp_analysis c),
              tp_images := (if truthy imgs then imgs else tp_images c),
              tp_currentPass := n, tp_loading := False\<rparr>)
        (send (tp_request (tp_documentId s) n) w1)"
    for c w1
    using r i a by (simp add: tp_analyze_def tp_update_def Let_def)
  obtain d c w1 where up: "tp_uploadDocument t s w = (d, c, w1)"
    by (cases "tp_uploadDocument t s w") auto
  have "tp_images c = tp_images s"
    using tp_upload_frame [OF up] by simp
  then show ?thesis
    using reach up an by (auto simp add: tp_analyzePaper_def)
qed

theorem tp_images_replaced_when_present_witness:
  "ex_illustrating (tp_request (tp_documentId tp_viewing_pass1) 2) = Json ex_figures_reply
   \<and> get_prop ex_figures_reply ''images'' = Inr (JArr [])
   \<and> truthy (tp_documentId tp_viewing_pass1)
   \<and> tp_images tp_viewing_pass1 = JArr [ex_image]
   \<and> (\<exists>s' w'. tp_analyzePaper ex_illustrating 2 tp_viewing_pass1 ex_world = Next s' w'
         \<and> tp_images s' = JArr [])"
proof -
  have r: "ex_illustrating (tp_request (tp_documentId tp_viewing_pass1) 2) = Json ex_figures_reply"
    by (simp add: ex_illustrating_def)
  have i: "get_prop ex_figures_reply ''images'' = Inr (JArr [])"
    by (simp add: ex_figures_reply_def)
  have d: "truthy (tp_documentId tp_viewing_pass1)"
    and p: "tp_images tp_viewing_pass1 = JArr [ex_image]"
    by (simp_all add: tp_viewing_pass1_def)
  show ?thesis
    using tp_images_replaced_when_present [where t = ex_illustrating and s = tp_viewing_pass1
        and n = 2 and data = ex_figures_reply and imgs = "JArr []" and w = ex_world] r i d p
    by simp
qed

text \<open>
  Claim C10. In the single-request client, \<open>analyzePaper\<close> with no file selected does
  nothing: no request goes out, and the results, the displayed pass and the loading flag
  are as before.
\<close>

theorem sr_analyzePaper_without_file:
  "sr_file s = None \<Longrightarrow> sr_analyzePaper t n s w = Next s w"
  by (simp add: sr_analyzePaper_def)

theorem sr_analyzePaper_without_file_witness:
  "sr_file sr_initial = None
   \<and> sr_analyzePaper ex_backend 1 sr_initial ex_world = Next sr_initial ex_world"
  using sr_analyzePaper_without_file [of sr_initial ex_backend 1 ex_world]
  by (simp add: sr_initial_def)

section \<open>Further properties\<close>

text \<open>
  An object none of whose top-level values is \<open>null\<close> renders as one section per entry, in
  entry order, in both clients.
\<close>

theorem render_object_sections:
  "JNull \<notin> snd ` set es \<Longrightarrow>
   snd (sr_renderAnalysisContent b (JObj es)) =
     Inr (El ''div'' (map (\<lambda>(k, v). projr (sr_section b k v)) es))
   \<and> snd (tp_renderAnalysisContent b (JObj es)) =
     Inr (El ''div'' (map (\<lambda>(k, v). projr (tp_section b k v)) es))"
  using sr_sections_map [of es b] tp_sections_map [of es b]
  by (cases "sr_sections b es")
     (auto simp add: sr_renderAnalysisContent_def sr_render_try_def parse_content_def
       tp_renderAnalysisContent_def tp_render_try_def split: sum.splits)

text \<open>
  The object \<open>{"a": 1, "b": ["x","y"], "c": {"d": 2}}\<close>: sections A (the text 1), B (a list
  of x and y) and C (a list of the one line d: 2).
\<close>

theorem render_object_sections_example:
  "snd (sr_renderAnalysisContent ex_builtins ex_content) =
     Inr (El ''div''
       [El ''div'' [El ''h3'' [Txt ''A''], El ''p'' [Expr (JNum 1)]],
        El ''div'' [El ''h3'' [Txt ''B''],
                    El ''ul'' [El ''li'' [Expr (JStr ''x'')], El ''li'' [Expr (JStr ''y'')]]],
        El ''div'' [El ''h3'' [Txt ''C''],
                    El ''ul'' [El ''li'' [El ''strong'' [Txt ''d'', Txt '':''], Txt '' '',
                                          Expr (JNum 2)]]]])
   \<and> snd (tp_renderAnalysisContent ex_builtins ex_content) =
     Inr (El ''div''
       [El ''Card'' [El ''CardHeader'' [El ''CardTitle'' [Txt ''A'']],
                     El ''CardContent'' [El ''p'' [Expr (JNum 1)]]],
        El ''Card'' [El ''CardHeader'' [El ''CardTitle'' [Txt ''B'']],
                     El ''CardContent''
                       [El ''ul'' [El ''li'' [Expr (JStr ''x'')], El ''li'' [Expr (JStr ''y'')]]]],
        El ''Card'' [El ''CardHeader'' [El ''CardTitle'' [Txt ''C'']],
                     El ''CardContent''
                       [El ''ul'' [El ''li'' [El ''span'' [Txt ''d'', Txt '':'', Txt '' ''],
                                             Expr (JNum 2)]]]]])"
  using render_object_sections
    [of "[(''a'', JNum 1), (''b'', JArr [JStr ''x'', JStr ''y'']), (''c'', JObj [(''d'', JNum 2)])]"
        ex_builtins]
  by (simp add: ex_content_def sr_section_def sr_section_body_def sr_list_item_def
      sr_entry_item_def tp_section_def tp_section_body_def tp_list_item_def tp_entry_item_def
      replace_underscores_def upper_simps)

text \<open>
  In the single-request client a click on the button of a pass whose result is stored sends
  nothing and only makes that pass the one displayed.
\<close>

theorem sr_onClick_stored_pass_no_request:
  "truthy (sr_result s (pass_of b)) \<Longrightarrow>
   sr_onClick t b s w = Next (s\<lparr>sr_currentPass := pass_of b\<rparr>) w"
  by (rule sr_click_stored)

theorem sr_onClick_stored_pass_no_request_witness:
  "truthy (sr_result sr_viewing_pass1 (pass_of FirstPass))
   \<and> sr_onClick ex_backend FirstPass sr_viewing_pass1 ex_world =
       Next (sr_viewing_pass1\<lparr>sr_currentPass := 1\<rparr>) ex_world"
  using sr_onClick_stored_pass_no_request [of sr_viewing_pass1 FirstPass ex_backend ex_world]
  by (simp add: sr_viewing_pass1_def sr_result_def ex_analysis_def)

text \<open>
  In both clients, an \<open>analyzePaper\<close> for pass m that leaves a next state leaves the result
  of every other pass as it was.
\<close>

theorem analyze_keeps_other_passes:
  "(sr_analyzePaper t m s w = Next s' w' \<and> n \<noteq> m \<longrightarrow> sr_result s' n = sr_result s n)
   \<and> (tp_analyzePaper t m u w = Next u' w'' \<and> n \<noteq> m \<longrightarrow> tp_result u' n = tp_result u n)"
  using sr_analyze_other [of t m s w s' w' n] tp_analyzePaper_other [of t m u w u' w'' n]
  by blast

theorem analyze_keeps_other_passes_witness:
  "(\<exists>s' w'. sr_analyzePaper ex_backend 2 sr_viewing_pass1 ex_world = Next s' w'
       \<and> sr_result s' 1 = ex_analysis \<and> sr_result s' 2 = ex_analysis)
   \<and> (\<exists>u' w'. tp_analyzePaper ex_backend 2 tp_viewing_pass1 ex_world = Next u' w'
       \<and> tp_result u' 1 = ex_analysis \<and> tp_result u' 2 = ex_analysis)"
proof -
  obtain s' w' where a: "sr_analyzePaper ex_backend 2 sr_viewing_pass1 ex_world = Next s' w'"
    and a2: "sr_result s' 2 = ex_analysis"
    by (simp add: sr_analyzePaper_def sr_viewing_pass1_def sr_request_def sr_url_def
        ex_backend_def ex_reply_def sr_update_def sr_result_def Let_def)
  obtain u' w'' where b: "tp_analyzePaper ex_backend 2 tp_viewing_pass1 ex_world = Next u' w''"
    and b2: "tp_result u' 2 = ex_analysis"
    by (simp add: tp_analyzePaper_def tp_analyze_def tp_viewing_pass1_def tp_request_def
        tp_url_def ex_backend_def ex_reply_def tp_update_def tp_result_def lookup_def
        tp_no_results_def pass_key_simps Let_def)
  have s1: "sr_result sr_viewing_pass1 1 = ex_analysis"
    by (simp add: sr_viewing_pass1_def sr_result_def)
  have u1: "tp_result tp_viewing_pass1 1 = ex_analysis"
    by (simp add: tp_viewing_pass1_def tp_result_def lookup_def tp_no_results_def pass_key_simps)
  show ?thesis
    using analyze_keeps_other_passes [where t = ex_backend and m = 2 and n = 1
        and s = sr_viewing_pass1 and w = ex_world and s' = s' and w' = w'
        and u = tp_viewing_pass1 and u' = u' and w'' = w''] a a2 b b2 s1 u1
    by simp
qed

text \<open>
  In the two-phase client every click on a pass button sends at least one request,
  whatever is stored.
\<close>

theorem tp_onClick_always_requests:
  "length (calls w) < length (calls (world_of (tp_onClick t b s w)))"
proof -
  have "length (calls w) < length (calls (world_of (tp_analyzePaper t n s w)))" for n
  proof (cases "\<not> truthy (tp_documentId s) \<and> tp_file s \<noteq> None")
    case False
    then show ?thesis using tp_analyze_sends [of w t n s s] by (auto simp add: tp_analyzePaper_def)
  next
    case True
    then obtain f where f: "tp_file s = Some f" by auto
    obtain d c w1 where up: "tp_uploadDocument t s w = (d, c, w1)"
      by (cases "tp_uploadDocument t s w") auto
    from tp_upload_sends [OF f up] have "length (calls w) < length (calls w1)" .
    moreover have "length (calls w1) < length (calls (world_of (tp_analyze t n s c w1)))"
      by (rule tp_analyze_sends)
    ultimately show ?thesis using True up by (auto simp add: tp_analyzePaper_def)
  qed
  then show ?thesis by (cases b) simp_all
qed

end
